theory Spec2Isabelle
  imports Main "HOL-Library.Sublist" "HOL-Library.AList"
begin

section \<open>Python values\<close>

text \<open>
  The values that travel between the adapters and the device's status snapshot are JSON-like:
  \<open>None\<close>, booleans, integers, strings, lists and dictionaries with string keys.
  Floating-point numbers are left out.  A dictionary is an association list in insertion
  order; Python dictionaries have no duplicate keys.
\<close>

datatype pyval =
    PNone
  | PBool bool
  | PInt int
  | PStr string
  | PList "pyval list"
  | PDict "(string \<times> pyval) list"

datatype py_error = KeyError | TypeError | IndexError | AttributeError

text \<open>Python's \<open>==\<close>: \<open>True == 1\<close> and \<open>False == 0\<close> hold, lists compare
  element by element, dictionaries compare as mappings, values of different kinds differ.\<close>

fun py_eq :: "pyval \<Rightarrow> pyval \<Rightarrow> bool"
  and py_eq_list :: "pyval list \<Rightarrow> pyval list \<Rightarrow> bool"
  and py_eq_items :: "(string \<times> pyval) list \<Rightarrow> (string \<times> pyval) list \<Rightarrow> bool" where
  "py_eq PNone PNone = True"
| "py_eq (PBool a) (PBool b) = (a = b)"
| "py_eq (PBool a) (PInt j) = ((if a then 1 else 0) = j)"
| "py_eq (PInt i) (PBool b) = (i = (if b then 1 else 0))"
| "py_eq (PInt i) (PInt j) = (i = j)"
| "py_eq (PStr s) (PStr t) = (s = t)"
| "py_eq (PList xs) (PList ys) = py_eq_list xs ys"
| "py_eq (PDict d) (PDict e) = (length d = length e \<and> py_eq_items d e)"
| "py_eq _ _ = False"
| "py_eq_list [] [] = True"
| "py_eq_list (x # xs) (y # ys) = (py_eq x y \<and> py_eq_list xs ys)"
| "py_eq_list _ _ = False"
| "py_eq_items [] e = True"
| "py_eq_items ((k, v) # r) e =
     ((case map_of e k of None \<Rightarrow> False | Some w \<Rightarrow> py_eq v w) \<and> py_eq_items r e)"

text \<open>Truth value of an object, as \<open>if result:\<close> tests it.\<close>

fun py_truthy :: "pyval \<Rightarrow> bool" where
  "py_truthy PNone = False"
| "py_truthy (PBool b) = b"
| "py_truthy (PInt i) = (i \<noteq> 0)"
| "py_truthy (PStr s) = (s \<noteq> [])"
| "py_truthy (PList xs) = (xs \<noteq> [])"
| "py_truthy (PDict d) = (d \<noteq> [])"

text \<open>\<open>len(x)\<close>.\<close>

fun py_len :: "pyval \<Rightarrow> py_error + nat" where
  "py_len (PStr s) = Inr (length s)"
| "py_len (PList xs) = Inr (length xs)"
| "py_len (PDict d) = Inr (length d)"
| "py_len _ = Inl TypeError"

text \<open>Indexing a sequence of length \<open>n\<close> with an integer: negative indices count from
  the end, anything out of range raises \<open>IndexError\<close>.\<close>

definition py_index :: "'a list \<Rightarrow> int \<Rightarrow> py_error + 'a" where
  "py_index xs i =
     (if 0 \<le> i \<and> i < int (length xs) then Inr (xs ! nat i)
      else if i < 0 \<and> - int (length xs) \<le> i then Inr (xs ! nat (int (length xs) + i))
      else Inl IndexError)"

text \<open>The subscript \<open>x[k]\<close>.\<close>

fun py_getitem :: "pyval \<Rightarrow> pyval \<Rightarrow> py_error + pyval" where
  "py_getitem (PDict d) (PStr k) = (case map_of d k of None \<Rightarrow> Inl KeyError | Some v \<Rightarrow> Inr v)"
| "py_getitem (PDict d) (PList _) = Inl TypeError"
| "py_getitem (PDict d) (PDict _) = Inl TypeError"
| "py_getitem (PDict d) _ = Inl KeyError"
| "py_getitem (PList xs) (PInt i) = py_index xs i"
| "py_getitem (PList xs) (PBool b) = py_index xs (if b then 1 else 0)"
| "py_getitem (PStr s) (PInt i) = map_sum id (\<lambda>c. PStr [c]) (py_index s i)"
| "py_getitem (PStr s) (PBool b) = map_sum id (\<lambda>c. PStr [c]) (py_index s (if b then 1 else 0))"
| "py_getitem _ _ = Inl TypeError"

text \<open>The membership test \<open>x in y\<close>: element of a list, substring of a string, key of a
  dictionary; any other right operand is not iterable.\<close>

fun py_in :: "pyval \<Rightarrow> pyval \<Rightarrow> py_error + bool" where
  "py_in x (PList ys) = Inr (list_ex (py_eq x) ys)"
| "py_in (PStr t) (PStr s) = Inr (sublist t s)"
| "py_in _ (PStr s) = Inl TypeError"
| "py_in (PStr k) (PDict d) = Inr (k \<in> set (map fst d))"
| "py_in (PList _) (PDict d) = Inl TypeError"
| "py_in (PDict _) (PDict d) = Inl TypeError"
| "py_in _ (PDict d) = Inr False"
| "py_in _ _ = Inl TypeError"


section \<open>The client library, as the adapters use it\<close>

text \<open>
  The identifiers \<open>Capability.*\<close> and \<open>Attribute.*\<close> are string constants of the
  client library, which is not part of the repository.  Their values are parameters of the
  model: nothing below depends on what the strings are.
\<close>

record lib_consts =
  Capability_switch :: string
  Capability_media_input_source :: string
  Capability_media_playback :: string
  Capability_media_playback_repeat :: string
  Capability_media_playback_shuffle :: string
  Capability_audio_mute :: string
  Capability_audio_volume :: string
  Capability_tv_channel :: string
  Capability_power_meter :: string
  Capability_power_consumption_report :: string
  Capability_power_source :: string
  Attribute_switch :: string
  Attribute_mute :: string
  Attribute_data :: string

text \<open>
  Modelled from the spec: the status snapshot \<open>device.status\<close> of the client library
  (section 6: an attribute-keyed snapshot that supports direct attribute access, bracket
  access and in-place value patching).  Each entry carries the fields the adapters read,
  \<open>.value\<close> and \<open>.data\<close>, and a unit.  Bracket access \<open>status.attributes[a]\<close> and direct
  access \<open>getattr(status, a)\<close> to an attribute the snapshot does not hold are errors;
  \<open>update_attribute_value\<close> replaces the value of an entry and keeps its other fields.
\<close>

record Status =
  Status_value :: pyval
  Status_unit :: pyval
  Status_data :: pyval

type_synonym DeviceStatus = "string \<rightharpoonup> Status"

definition attributes_getitem :: "DeviceStatus \<Rightarrow> string \<Rightarrow> py_error + Status" where
  "attributes_getitem st a = (case st a of None \<Rightarrow> Inl KeyError | Some s \<Rightarrow> Inr s)"

definition status_getattr :: "DeviceStatus \<Rightarrow> string \<Rightarrow> py_error + pyval" where
  "status_getattr st a =
     (case st a of None \<Rightarrow> Inl AttributeError | Some s \<Rightarrow> Inr (Status_value s))"

definition update_attribute_value :: "DeviceStatus \<Rightarrow> string \<Rightarrow> pyval \<Rightarrow> DeviceStatus" where
  "update_attribute_value st a v =
     st(a \<mapsto> (case st a of
                 None \<Rightarrow> \<lparr>Status_value = v, Status_unit = PNone, Status_data = PNone\<rparr>
               | Some s \<Rightarrow> s\<lparr>Status_value := v\<rparr>))"

text \<open>
  What an adapter does to the outside is recorded in order: the remote calls it issues on
  the device and the \<open>async_write_ha_state\<close> notification to the host framework.
\<close>

datatype effect =
    Command string string string "pyval list"
  | Execute string "pyval option"
  | SwitchOn bool
  | SwitchOff bool
  | WriteHaState

text \<open>The device an adapter refers to: its status snapshot and the effects so far.  The
  snapshot is shared by all adapters of the device.\<close>

record device =
  status :: DeviceStatus
  trace :: "effect list"

definition emit :: "effect \<Rightarrow> device \<Rightarrow> device" where
  "emit e d = d\<lparr>trace := trace d @ [e]\<rparr>"

text \<open>
  Modelled from the spec: \<open>device.switch_on(set_status)\<close> and
  \<open>device.switch_off(set_status)\<close> of the client library.  The built-in command is sent
  and reports a result; with \<open>set_status\<close> and a successful result the call patches the
  snapshot's switch attribute, to the value that reads as on (respectively off).
\<close>

definition switch_on :: "lib_consts \<Rightarrow> bool \<Rightarrow> pyval \<Rightarrow> device \<Rightarrow> device" where
  "switch_on C set_status result d =
     (let d1 = emit (SwitchOn set_status) d
      in if py_truthy result \<and> set_status
         then d1\<lparr>status := update_attribute_value (status d1) (Attribute_switch C) (PBool True)\<rparr>
         else d1)"

definition switch_off :: "lib_consts \<Rightarrow> bool \<Rightarrow> pyval \<Rightarrow> device \<Rightarrow> device" where
  "switch_off C set_status result d =
     (let d1 = emit (SwitchOff set_status) d
      in if py_truthy result \<and> set_status
         then d1\<lparr>status := update_attribute_value (status d1) (Attribute_switch C) (PBool False)\<rparr>
         else d1)"

section \<open>The capability registry of the switch platform\<close>

text \<open>The named tuple \<open>Map\<close>.\<close>

record Map =
  Map_attribute :: string
  Map_on_command :: string
  Map_off_command :: string
  Map_on_value :: pyval
  Map_off_value :: pyval
  Map_name :: string
  Map_icon :: "string option"
  Map_extra_state_attributes :: "string list option"

text \<open>A dictionary display \<open>{k1: v1, k2: v2, ...}\<close> inserts its items from left to right:
  a key that is already there keeps its place and takes the new value.\<close>

definition py_dict :: "('k \<times> 'v) list \<Rightarrow> ('k \<times> 'v) list" where
  "py_dict items = foldl (\<lambda>d (k, v). AList.update k v d) [] items"

definition CAPABILITY_TO_SWITCH :: "lib_consts \<Rightarrow> (string \<times> Map list) list" where
  "CAPABILITY_TO_SWITCH C = py_dict
     [(Capability_switch C,
         [\<lparr>Map_attribute = Attribute_switch C, Map_on_command = ''switch_on'',
           Map_off_command = ''switch_off'', Map_on_value = PStr ''on'',
           Map_off_value = PStr ''off'', Map_name = ''Switch'', Map_icon = None,
           Map_extra_state_attributes = None\<rparr>]),
      (Capability_audio_mute C,
         [\<lparr>Map_attribute = Attribute_mute C, Map_on_command = ''setMute'',
           Map_off_command = ''setMute'', Map_on_value = PStr ''muted'',
           Map_off_value = PStr ''unmuted'', Map_name = ''Mute'',
           Map_icon = Some ''mdi:volume-mute'', Map_extra_state_attributes = None\<rparr>]),
      (''custom.spiMode'',
         [\<lparr>Map_attribute = ''spiMode'', Map_on_command = ''setSpiMode'',
           Map_off_command = ''setSpiMode'', Map_on_value = PStr ''on'',
           Map_off_value = PStr ''off'', Map_name = ''SPI Mode'', Map_icon = None,
           Map_extra_state_attributes = None\<rparr>]),
      (''custom.autoCleaningMode'',
         [\<lparr>Map_attribute = ''autoCleaningMode'', Map_on_command = ''setAutoCleaningMode'',
           Map_off_command = ''setAutoCleaningMode'', Map_on_value = PStr ''on'',
           Map_off_value = PStr ''off'', Map_name = ''Auto Cleaning Mode'',
           Map_icon = Some ''mdi:shimmer'', Map_extra_state_attributes = None\<rparr>])]"

text \<open>Iterating over the dictionary yields its keys in insertion order.\<close>

definition registry_keys :: "lib_consts \<Rightarrow> string list" where
  "registry_keys C = map fst (CAPABILITY_TO_SWITCH C)"

text \<open>\<open>get_capabilities\<close> of \<open>switch.py\<close>.\<close>

definition switch_get_capabilities :: "lib_consts \<Rightarrow> string list \<Rightarrow> string list" where
  "switch_get_capabilities C capabilities =
     [capability \<leftarrow> registry_keys C. capability \<in> set capabilities]"

section \<open>The capability gate of the media player platform\<close>

definition supported :: "lib_consts \<Rightarrow> string list" where
  "supported C =
     [Capability_switch C,
      Capability_media_input_source C,
      Capability_media_playback C,
      Capability_media_playback_repeat C,
      Capability_media_playback_shuffle C,
      Capability_audio_mute C,
      Capability_audio_volume C,
      Capability_tv_channel C,
      Capability_power_meter C,
      Capability_power_consumption_report C,
      Capability_power_source C]"

text \<open>\<open>get_capabilities\<close> of \<open>media_player.py\<close>; \<open>None\<close> is the Python \<open>None\<close>.\<close>

definition media_player_get_capabilities :: "lib_consts \<Rightarrow> string list \<Rightarrow> string list option" where
  "media_player_get_capabilities C capabilities =
     (if list_all (\<lambda>capability. capability \<in> set capabilities) (supported C)
      then Some (supported C) else None)"


section \<open>The generic switch adapter\<close>

text \<open>The fields \<open>__init__\<close> stores.  The device is passed to each operation, which
  returns it updated.\<close>

record SmartThingsSwitch =
  sw_attribute :: string
  sw_on_command :: string
  sw_off_command :: string
  sw_on_value :: pyval
  sw_off_value :: pyval
  sw_name :: string
  sw_icon :: "string option"
  sw_extra_state_attributes :: "string list option"

text \<open>\<open>result\<close> is what the remote call answers.\<close>

definition sw_async_turn_off :: "lib_consts \<Rightarrow> SmartThingsSwitch \<Rightarrow> pyval \<Rightarrow> device \<Rightarrow> device" where
  "sw_async_turn_off C self result d = emit WriteHaState (switch_off C True result d)"

definition sw_async_turn_on :: "lib_consts \<Rightarrow> SmartThingsSwitch \<Rightarrow> pyval \<Rightarrow> device \<Rightarrow> device" where
  "sw_async_turn_on C self result d = emit WriteHaState (switch_on C True result d)"

definition sw_is_on :: "SmartThingsSwitch \<Rightarrow> device \<Rightarrow> py_error + pyval" where
  "sw_is_on self d = status_getattr (status d) (sw_attribute self)"

section \<open>The custom-capability switch adapter\<close>

record SmartThingsCustomSwitch =
  cs_capability :: string
  cs_attribute :: string
  cs_on_command :: string
  cs_off_command :: string
  cs_on_value :: pyval
  cs_off_value :: pyval
  cs_name :: string
  cs_icon :: "string option"
  cs_extra_state_attributes :: "string list option"

definition cs_async_turn_off :: "SmartThingsCustomSwitch \<Rightarrow> pyval \<Rightarrow> device \<Rightarrow> device" where
  "cs_async_turn_off self result d =
     (let d1 = emit (Command ''main'' (cs_capability self) (cs_off_command self)
                       [cs_off_value self]) d;
          d2 = (if py_truthy result
                then d1\<lparr>status := update_attribute_value (status d1) (cs_attribute self)
                                     (cs_off_value self)\<rparr>
                else d1)
      in emit WriteHaState d2)"

definition cs_async_turn_on :: "SmartThingsCustomSwitch \<Rightarrow> pyval \<Rightarrow> device \<Rightarrow> device" where
  "cs_async_turn_on self result d =
     (let d1 = emit (Command ''main'' (cs_capability self) (cs_on_command self)
                       [cs_on_value self]) d;
          d2 = (if py_truthy result
                then d1\<lparr>status := update_attribute_value (status d1) (cs_attribute self)
                                     (cs_on_value self)\<rparr>
                else d1)
      in emit WriteHaState d2)"

definition cs_is_on :: "SmartThingsCustomSwitch \<Rightarrow> device \<Rightarrow> py_error + pyval" where
  "cs_is_on self d =
     (if cs_on_value self \<noteq> PNone
      then (case status_getattr (status d) (cs_attribute self) of
              Inl e \<Rightarrow> Inl e
            | Inr v \<Rightarrow> Inr (PBool (py_eq v (cs_on_value self))))
      else status_getattr (status d) (cs_attribute self))"

section \<open>The paged switch adapter\<close>

text \<open>Besides the fields of \<open>__init__\<close>, an instance has \<open>execute_state\<close> and
  \<open>init_bool\<close>, both \<open>False\<close> until the instance assigns them.\<close>

record SamsungOcfSwitch =
  ocf_page :: string
  ocf_key :: string
  ocf_on_value :: pyval
  ocf_off_value :: pyval
  ocf_name :: string
  ocf_on_icon :: "string option"
  ocf_off_icon :: "string option"
  execute_state :: bool
  init_bool :: bool

definition SamsungOcfSwitch_init ::
  "string \<Rightarrow> string \<Rightarrow> pyval \<Rightarrow> pyval \<Rightarrow> string \<Rightarrow> string option \<Rightarrow> string option
     \<Rightarrow> SamsungOcfSwitch" where
  "SamsungOcfSwitch_init page key on_value off_value name on_icon off_icon =
     \<lparr>ocf_page = page, ocf_key = key, ocf_on_value = on_value, ocf_off_value = off_value,
      ocf_name = name, ocf_on_icon = on_icon, ocf_off_icon = off_icon,
      execute_state = False, init_bool = False\<rparr>"

text \<open>\<open>startup\<close> schedules the page visit \<open>device.execute(page)\<close> and does not wait for it.\<close>

definition startup :: "SamsungOcfSwitch \<Rightarrow> device \<Rightarrow> device" where
  "startup self d = emit (Execute (ocf_page self) None) d"

definition ocf_async_turn_off ::
  "SamsungOcfSwitch \<Rightarrow> pyval \<Rightarrow> device \<Rightarrow> SamsungOcfSwitch \<times> device" where
  "ocf_async_turn_off self result d =
     (let d1 = emit (Execute (ocf_page self)
                       (Some (PDict [(ocf_key self, ocf_off_value self)]))) d;
          (self2, d2) =
            (if py_truthy result
             then (self\<lparr>execute_state := False\<rparr>,
                   d1\<lparr>status := update_attribute_value (status d1) ''data''
                       (PDict [(''payload'', PDict [(ocf_key self, ocf_off_value self)])])\<rparr>)
             else (self, d1))
      in (self2, emit WriteHaState d2))"

definition ocf_async_turn_on ::
  "SamsungOcfSwitch \<Rightarrow> pyval \<Rightarrow> device \<Rightarrow> SamsungOcfSwitch \<times> device" where
  "ocf_async_turn_on self result d =
     (let d1 = emit (Execute (ocf_page self)
                       (Some (PDict [(ocf_key self, ocf_on_value self)]))) d;
          (self2, d2) =
            (if py_truthy result
             then (self\<lparr>execute_state := True\<rparr>,
                   d1\<lparr>status := update_attribute_value (status d1) ''data''
                       (PDict [(''payload'', PDict [(ocf_key self, ocf_on_value self)])])\<rparr>)
             else (self, d1))
      in (self2, emit WriteHaState d2))"

text \<open>The two reads of \<open>is_on\<close> from the snapshot:
  \<open>status.attributes[Attribute.data].data["href"]\<close> and
  \<open>status.attributes[Attribute.data].value["payload"][key]\<close>.\<close>

definition data_href :: "lib_consts \<Rightarrow> device \<Rightarrow> py_error + pyval" where
  "data_href C d =
     (case attributes_getitem (status d) (Attribute_data C) of
        Inl e \<Rightarrow> Inl e
      | Inr s \<Rightarrow> py_getitem (Status_data s) (PStr ''href''))"

definition data_output :: "lib_consts \<Rightarrow> SamsungOcfSwitch \<Rightarrow> device \<Rightarrow> py_error + pyval" where
  "data_output C self d =
     (case attributes_getitem (status d) (Attribute_data C) of
        Inl e \<Rightarrow> Inl e
      | Inr s \<Rightarrow> (case py_getitem (Status_value s) (PStr ''payload'') of
                   Inl e \<Rightarrow> Inl e
                 | Inr p \<Rightarrow> py_getitem p (PStr (ocf_key self))))"

text \<open>An \<open>if a in output: ... elif b in output: ...\<close> pair of \<open>is_on\<close>: the operands of
  the second test are evaluated only when the first test is false.\<close>

definition on_off_test ::
  "SamsungOcfSwitch \<Rightarrow> py_error + pyval \<Rightarrow> py_error + pyval \<Rightarrow> pyval
     \<Rightarrow> py_error + SamsungOcfSwitch" where
  "on_off_test self a b output =
     (case a of Inl e \<Rightarrow> Inl e
      | Inr x \<Rightarrow>
        (case py_in x output of Inl e \<Rightarrow> Inl e
         | Inr True \<Rightarrow> Inr (self\<lparr>execute_state := True\<rparr>)
         | Inr False \<Rightarrow>
           (case b of Inl e \<Rightarrow> Inl e
            | Inr y \<Rightarrow>
              (case py_in y output of Inl e \<Rightarrow> Inl e
               | Inr True \<Rightarrow> Inr (self\<lparr>execute_state := False\<rparr>)
               | Inr False \<Rightarrow> Inr self))))"

text \<open>The classification of \<open>is_on\<close>, from \<open>if len(self._on_value) > 1\<close> on.\<close>

definition classify :: "SamsungOcfSwitch \<Rightarrow> pyval \<Rightarrow> py_error + SamsungOcfSwitch" where
  "classify self output =
     (case py_len (ocf_on_value self) of Inl e \<Rightarrow> Inl e
      | Inr n \<Rightarrow>
        if n > 1
        then on_off_test self (Inr (ocf_on_value self)) (Inr (ocf_off_value self)) output
        else on_off_test self (py_getitem (ocf_on_value self) (PInt 0))
               (py_getitem (ocf_off_value self) (PInt 0)) output)"

text \<open>\<open>is_on\<close> returns a value or raises, and in both cases leaves the adapter and the
  device as they are at that point.\<close>

definition ocf_is_on ::
  "lib_consts \<Rightarrow> SamsungOcfSwitch \<Rightarrow> device \<Rightarrow> (py_error + bool) \<times> SamsungOcfSwitch \<times> device" where
  "ocf_is_on C self d =
     (let d1 = (if \<not> init_bool self then startup self d else d)
      in case data_href C d1 of
           Inl e \<Rightarrow> (Inl e, self, d1)
         | Inr h \<Rightarrow>
           if py_eq h (PStr (ocf_page self))
           then (let self1 = self\<lparr>init_bool := True\<rparr>
                 in case data_output C self1 d1 of
                      Inl e \<Rightarrow> (Inl e, self1, d1)
                    | Inr output \<Rightarrow>
                      (case classify self1 output of
                         Inl e \<Rightarrow> (Inl e, self1, d1)
                       | Inr self2 \<Rightarrow> (Inr (execute_state self2), self2, d1)))
           else (Inr (execute_state self), self, d1))"

section \<open>The entities \<open>async_setup_entry\<close> creates\<close>

datatype entity =
    Generic SmartThingsSwitch
  | Custom SmartThingsCustomSwitch
  | Ocf SamsungOcfSwitch

text \<open>The body of the loop over a device's assigned capabilities: the registry lookup
  \<open>CAPABILITY_TO_SWITCH[capability]\<close> and one adapter for each of its maps.\<close>

definition capability_switches :: "lib_consts \<Rightarrow> string \<Rightarrow> py_error + entity list" where
  "capability_switches C capability =
     (case map_of (CAPABILITY_TO_SWITCH C) capability of
        None \<Rightarrow> Inl KeyError
      | Some maps \<Rightarrow>
        if capability \<in> set [''custom.autoCleaningMode'', ''custom.spiMode'',
                               Capability_audio_mute C]
        then Inr (map (\<lambda>m. Custom
               \<lparr>cs_capability = capability, cs_attribute = Map_attribute m,
                cs_on_command = Map_on_command m, cs_off_command = Map_off_command m,
                cs_on_value = Map_on_value m, cs_off_value = Map_off_value m,
                cs_name = Map_name m, cs_icon = Map_icon m,
                cs_extra_state_attributes = Map_extra_state_attributes m\<rparr>) maps)
        else Inr (map (\<lambda>m. Generic
               \<lparr>sw_attribute = Map_attribute m,
                sw_on_command = Map_on_command m, sw_off_command = Map_off_command m,
                sw_on_value = Map_on_value m, sw_off_value = Map_off_value m,
                sw_name = Map_name m, sw_icon = Map_icon m,
                sw_extra_state_attributes = Map_extra_state_attributes m\<rparr>) maps))"

text \<open>The two adapters added for a Samsung OCF climate device.\<close>

definition samsung_light_switch :: SamsungOcfSwitch where
  "samsung_light_switch =
     SamsungOcfSwitch_init ''/mode/vs/0'' ''x.com.samsung.da.options''
       (PList [PStr ''Light_Off'']) (PList [PStr ''Light_On''])
       ''Light'' (Some ''mdi:led-on'') (Some ''mdi:led-variant-off'')"

definition samsung_audio_switch :: SmartThingsCustomSwitch where
  "samsung_audio_switch =
     \<lparr>cs_capability = ''audioVolume'', cs_attribute = ''volume'',
      cs_on_command = ''setVolume'', cs_off_command = ''setVolume'',
      cs_on_value = PInt 100, cs_off_value = PInt 0,
      cs_name = ''Audio'', cs_icon = Some ''mdi:volume-high'',
      cs_extra_state_attributes = None\<rparr>"

definition samsung_ocf_switches :: "entity list" where
  "samsung_ocf_switches = [Ocf samsung_light_switch, Custom samsung_audio_switch]"


section \<open>The classification as the specification words it\<close>

text \<open>
  The specification's reading of the classification step of the paged switch: the on-value
  is tested for membership in the payload output first and decides for on; otherwise the
  off-value is tested and decides for off; when neither is contained the cached state stays.
  It is compared with \<open>ocf_is_on\<close> below.
\<close>

definition spec_on_off :: "pyval \<Rightarrow> pyval \<Rightarrow> pyval \<Rightarrow> bool \<Rightarrow> py_error + bool" where
  "spec_on_off a b output cached =
     (case py_in a output of
        Inl e \<Rightarrow> Inl e
      | Inr True \<Rightarrow> Inr True
      | Inr False \<Rightarrow>
        (case py_in b output of
           Inl e \<Rightarrow> Inl e
         | Inr True \<Rightarrow> Inr False
         | Inr False \<Rightarrow> Inr cached))"

section \<open>Concrete inputs\<close>

text \<open>The identifier strings of one release of the client library.\<close>

definition sample_consts :: lib_consts where
  "sample_consts = \<lparr>Capability_switch = ''switch'',
  Capability_media_input_source = ''mediaInputSource'',
  Capability_media_playback = ''mediaPlayback'',
  Capability_media_playback_repeat = ''mediaPlaybackRepeat'',
  Capability_media_playback_shuffle = ''mediaPlaybackShuffle'',
  Capability_audio_mute = ''audioMute'',
  Capability_audio_volume = ''audioVolume'',
  Capability_tv_channel = ''tvChannel'',
  Capability_power_meter = ''powerMeter'',
  Capability_power_consumption_report = ''powerConsumptionReport'',
  Capability_power_source = ''powerSource'',
  Attribute_switch = ''switch'',
  Attribute_mute = ''mute'',
  Attribute_data = ''data''\<rparr>"

text \<open>A device whose snapshot holds a data attribute for the page \<open>href\<close>, with \<open>output\<close>
  at \<open>key\<close> in its payload; and a device whose snapshot holds a volume.\<close>

definition page_device :: "string \<Rightarrow> string \<Rightarrow> pyval \<Rightarrow> device" where
  "page_device href key output =
     \<lparr>status = [''data'' \<mapsto>
          \<lparr>Status_value = PDict [(''payload'', PDict [(key, output)])],
           Status_unit = PNone,
           Status_data = PDict [(''href'', PStr href)]\<rparr>],
      trace = []\<rparr>"

definition volume_device :: "pyval \<Rightarrow> device" where
  "volume_device v =
     \<lparr>status = [''volume'' \<mapsto> \<lparr>Status_value = v, Status_unit = PNone, Status_data = PNone\<rparr>],
      trace = []\<rparr>"

text \<open>A paged switch with the value lists \<open>["Light_On"]\<close> and \<open>["Light_Off"]\<close>, and one
  with a two-element on-value list.\<close>

definition light_adapter :: SamsungOcfSwitch where
  "light_adapter =
     SamsungOcfSwitch_init ''/mode/vs/0'' ''x.com.samsung.da.options''
       (PList [PStr ''Light_On'']) (PList [PStr ''Light_Off''])
       ''Light'' (Some ''mdi:led-on'') (Some ''mdi:led-variant-off'')"

definition two_value_adapter :: SamsungOcfSwitch where
  "two_value_adapter =
     SamsungOcfSwitch_init ''/mode/vs/0'' ''x.com.samsung.da.options''
       (PList [PStr ''Light_On'', PStr ''Beep_On'']) (PList [PStr ''Light_Off'', PStr ''Beep_Off''])
       ''Light'' None None"

definition light_on_device :: device where
  "light_on_device =
     page_device ''/mode/vs/0'' ''x.com.samsung.da.options''
       (PList [PStr ''Comode_Off'', PStr ''Light_On''])"

definition light_off_device :: device where
  "light_off_device =
     page_device ''/mode/vs/0'' ''x.com.samsung.da.options''
       (PList [PStr ''Comode_Off'', PStr ''Light_Off''])"

definition no_light_device :: device where
  "no_light_device =
     page_device ''/mode/vs/0'' ''x.com.samsung.da.options'' (PList [PStr ''Comode_Off''])"

definition nested_device :: device where
  "nested_device =
     page_device ''/mode/vs/0'' ''x.com.samsung.da.options''
       (PList [PList [PStr ''Light_On'', PStr ''Beep_On'']])"

text \<open>Two reads in a row by the light switch of \<open>async_setup_entry\<close>, while the snapshot
  holds the payload of another page; and a read that finds the watched page.\<close>

definition first_read :: "(py_error + bool) \<times> SamsungOcfSwitch \<times> device" where
  "first_read = ocf_is_on sample_consts samsung_light_switch
     (page_device ''/temperature/vs/0'' ''x.com.samsung.da.options'' (PList []))"

definition second_read :: "(py_error + bool) \<times> SamsungOcfSwitch \<times> device" where
  "second_read = ocf_is_on sample_consts (fst (snd first_read)) (snd (snd first_read))"

definition seen_read :: "(py_error + bool) \<times> SamsungOcfSwitch \<times> device" where
  "seen_read = ocf_is_on sample_consts light_adapter light_on_device"

section \<open>Auxiliary facts\<close>

lemma set_registry_keys:
  "set (registry_keys C) =
     {Capability_switch C, Capability_audio_mute C, ''custom.spiMode'', ''custom.autoCleaningMode''}"
  by (auto simp: registry_keys_def CAPABILITY_TO_SWITCH_def py_dict_def)

lemma distinct_py_dict_keys: "distinct (map fst (py_dict items))"
proof -
  have "distinct (map fst d) \<Longrightarrow>
          distinct (map fst (foldl (\<lambda>d (k, v). AList.update k v d) d items))" for d :: "('a \<times> 'b) list"
    by (induction items arbitrary: d) (auto simp: AList.distinct_update)
  then show ?thesis by (simp add: py_dict_def)
qed

lemma distinct_registry_keys: "distinct (registry_keys C)"
  by (simp add: registry_keys_def CAPABILITY_TO_SWITCH_def distinct_py_dict_keys)

lemma status_emit: "status (emit e d) = status d"
  by (simp add: emit_def)

lemma trace_emit: "trace (emit e d) = trace d @ [e]"
  by (simp add: emit_def)

lemma value_update_attribute_value:
  "map_option Status_value (update_attribute_value st a v a) = Some v"
  by (simp add: update_attribute_value_def split: option.splits)

lemma getattr_update_attribute_value:
  "status_getattr (update_attribute_value st a v) a = Inr v"
  by (simp add: status_getattr_def update_attribute_value_def split: option.splits)

lemma py_eq_PInt_100: "py_eq v (PInt 100) = (v = PInt 100)"
  by (cases v) auto

lemma generic_switch_attribute:
  assumes "capability_switches C c = Inr es" and "Generic self \<in> set es"
  shows "sw_attribute self = Attribute_switch C"
  using assms
  by (auto simp: capability_switches_def CAPABILITY_TO_SWITCH_def py_dict_def
           split: option.splits if_splits)

lemma data_href_startup: "data_href C (startup self d) = data_href C d"
  by (simp add: data_href_def startup_def status_emit)

lemma data_output_startup: "data_output C self' (startup self d) = data_output C self' d"
  by (simp add: data_output_def startup_def status_emit)

lemma data_output_init_bool: "data_output C (self\<lparr>init_bool := b\<rparr>) d = data_output C self d"
  by (simp add: data_output_def cong: sum.case_cong)

lemma ocf_is_on_page_seen:
  assumes "data_href C d = Inr h" and "py_eq h (PStr (ocf_page self))"
    and "data_output C self d = Inr output"
  shows "fst (ocf_is_on C self d) =
           map_sum id execute_state (classify (self\<lparr>init_bool := True\<rparr>) output)"
    and "fst (snd (ocf_is_on C self d)) =
           (case classify (self\<lparr>init_bool := True\<rparr>) output of
              Inl e \<Rightarrow> self\<lparr>init_bool := True\<rparr> | Inr self2 \<Rightarrow> self2)"
  using assms
  by (simp_all add: ocf_is_on_def Let_def data_href_startup data_output_startup
        data_output_init_bool split: sum.splits)

lemma on_off_test_result:
  "map_sum id execute_state (on_off_test self (Inr x) b output) =
     (case py_in x output of
        Inl e \<Rightarrow> Inl e
      | Inr True \<Rightarrow> Inr True
      | Inr False \<Rightarrow>
        (case b of Inl e \<Rightarrow> Inl e
         | Inr y \<Rightarrow>
           (case py_in y output of
              Inl e \<Rightarrow> Inl e
            | Inr True \<Rightarrow> Inr False
            | Inr False \<Rightarrow> Inr (execute_state self))))"
  by (simp add: on_off_test_def split: sum.splits bool.splits)

lemma classify_many:
  assumes "ocf_on_value self = PList ons" and "ocf_off_value self = PList offs"
    and "length ons > 1"
  shows "map_sum id execute_state (classify self output) =
           spec_on_off (PList ons) (PList offs) output (execute_state self)"
  using assms by (simp add: classify_def on_off_test_result spec_on_off_def cong: sum.case_cong bool.case_cong)

lemma classify_single:
  assumes "ocf_on_value self = PList [x]" and "ocf_off_value self = PList (y # ys)"
  shows "map_sum id execute_state (classify self output) =
           spec_on_off x y output (execute_state self)"
  using assms by (simp add: classify_def on_off_test_result spec_on_off_def py_index_def cong: sum.case_cong bool.case_cong)

lemma classify_single_on_first:
  assumes "ocf_on_value self = PList [x]" and "py_in x output = Inr True"
  shows "map_sum id execute_state (classify self output) = Inr True"
  using assms by (simp add: classify_def on_off_test_result py_index_def)

lemma classify_many_on_first:
  assumes "ocf_on_value self = PList ons" and "length ons > 1"
    and "py_in (PList ons) output = Inr True"
  shows "map_sum id execute_state (classify self output) = Inr True"
  using assms by (simp add: classify_def on_off_test_result)

lemma on_off_test_init_bool:
  "on_off_test self a b output = Inr self2 \<Longrightarrow> init_bool self2 = init_bool self"
  by (auto simp: on_off_test_def split: sum.splits bool.splits)

lemma classify_init_bool:
  "classify self output = Inr self2 \<Longrightarrow> init_bool self2 = init_bool self"
  by (auto simp: classify_def split: sum.splits if_splits dest: on_off_test_init_bool)

lemma trace_ocf_is_on:
  "trace (snd (snd (ocf_is_on C self d))) =
     (if init_bool self then trace d else trace d @ [Execute (ocf_page self) None])"
  by (simp add: ocf_is_on_def Let_def startup_def trace_emit split: sum.splits)

lemma init_bool_ocf_is_on:
  "init_bool (fst (snd (ocf_is_on C self d))) =
     (init_bool self \<or>
      (case data_href C d of Inl e \<Rightarrow> False | Inr h \<Rightarrow> py_eq h (PStr (ocf_page self))))"
  by (auto simp: ocf_is_on_def Let_def data_href_startup split: sum.splits
           dest: classify_init_bool)


section \<open>The capability gates\<close>

text \<open>
  C3.  For every sequence \<open>S\<close> of capability identifiers, \<open>get_capabilities\<close> of the switch
  platform returns exactly the registry keys that are members of \<open>S\<close>, each once and in
  registry order, and the empty list when no registry key is in \<open>S\<close>.  The function has no
  state to change and no way to fail: it is a total function from lists to lists.
\<close>

theorem switch_get_capabilities_exact:
  "subseq (switch_get_capabilities C S) (registry_keys C)
   \<and> distinct (switch_get_capabilities C S)
   \<and> set (switch_get_capabilities C S) = set (registry_keys C) \<inter> set S
   \<and> set (registry_keys C) =
       {Capability_switch C, Capability_audio_mute C, ''custom.spiMode'',
        ''custom.autoCleaningMode''}
   \<and> (set (registry_keys C) \<inter> set S = {} \<longrightarrow> switch_get_capabilities C S = [])"
proof -
  have a: "subseq (switch_get_capabilities C S) (registry_keys C)"
    by (simp add: switch_get_capabilities_def)
  have b: "distinct (switch_get_capabilities C S)"
    by (simp add: switch_get_capabilities_def distinct_registry_keys)
  have c: "set (switch_get_capabilities C S) = set (registry_keys C) \<inter> set S"
    by (auto simp: switch_get_capabilities_def)
  have d: "set (registry_keys C) \<inter> set S = {} \<longrightarrow> switch_get_capabilities C S = []"
    using c by (metis set_empty)
  from a b c d set_registry_keys show ?thesis by blast
qed

text \<open>With the library's identifiers: no registry key among \<open>light\<close> and \<open>lock\<close>, two
  among \<open>audioMute\<close>, \<open>lock\<close> and \<open>switch\<close>.\<close>

theorem switch_get_capabilities_exact_witness:
  "set (registry_keys sample_consts) \<inter> set [''light'', ''lock''] = {}
   \<and> switch_get_capabilities sample_consts [''light'', ''lock''] = []
   \<and> set (switch_get_capabilities sample_consts [''audioMute'', ''lock'', ''switch''])
       = {''switch'', ''audioMute''}"
proof -
  have k: "set (registry_keys sample_consts) =
      {''switch'', ''audioMute'', ''custom.spiMode'', ''custom.autoCleaningMode''}"
    using switch_get_capabilities_exact [of sample_consts "[]"]
    by (simp add: sample_consts_def)
  then have h: "set (registry_keys sample_consts) \<inter> set [''light'', ''lock''] = {}"
    by simp
  have e: "switch_get_capabilities sample_consts [''light'', ''lock''] = []"
    using switch_get_capabilities_exact [of sample_consts "[''light'', ''lock'']"] h by blast
  have s: "set (switch_get_capabilities sample_consts [''audioMute'', ''lock'', ''switch''])
       = {''switch'', ''audioMute''}"
    using switch_get_capabilities_exact [of sample_consts "[''audioMute'', ''lock'', ''switch'']"] k
    by auto
  from h e s show ?thesis by blast
qed

text \<open>
  C4.  For every sequence \<open>S\<close>, \<open>get_capabilities\<close> of the media player platform returns
  the fixed list of eleven capabilities if and only if all eleven are members of \<open>S\<close>, and
  \<open>None\<close> otherwise; it never returns a part of the list.
\<close>

theorem media_player_get_capabilities_all_or_nothing:
  "(media_player_get_capabilities C S = Some (supported C)) = (set (supported C) \<subseteq> set S)
   \<and> (\<not> set (supported C) \<subseteq> set S \<longrightarrow> media_player_get_capabilities C S = None)
   \<and> length (supported C) = 11"
  by (auto simp: media_player_get_capabilities_def list_all_iff supported_def)

text \<open>A device with all eleven capabilities and one more, and a device with two of them.\<close>

theorem media_player_get_capabilities_all_or_nothing_witness:
  "set (supported sample_consts) \<subseteq> set (''lock'' # supported sample_consts)
   \<and> media_player_get_capabilities sample_consts (''lock'' # supported sample_consts)
       = Some (supported sample_consts)
   \<and> \<not> set (supported sample_consts) \<subseteq> set [''switch'', ''audioMute'']
   \<and> media_player_get_capabilities sample_consts [''switch'', ''audioMute''] = None"
proof -
  have h1: "set (supported sample_consts) \<subseteq> set (''lock'' # supported sample_consts)"
    by auto
  have h2: "\<not> set (supported sample_consts) \<subseteq> set [''switch'', ''audioMute'']"
    by (simp add: supported_def sample_consts_def)
  from h1 h2
    media_player_get_capabilities_all_or_nothing [of sample_consts "''lock'' # supported sample_consts"]
    media_player_get_capabilities_all_or_nothing [of sample_consts "[''switch'', ''audioMute'']"]
  show ?thesis by blast
qed

section \<open>The generic switch\<close>

text \<open>
  C5.  For every generic switch adapter that \<open>async_setup_entry\<close> creates from the
  registry: when the remote command of \<open>async_turn_on\<close> succeeds, \<open>is_on\<close> read right
  after it returns true.  No push update is needed in between: \<open>switch_on\<close> is called with
  \<open>set_status=True\<close> and patches the snapshot attribute that \<open>is_on\<close> reads.
\<close>

theorem sw_is_on_after_turn_on:
  assumes "capability_switches C c = Inr es" and "Generic self \<in> set es"
    and "py_truthy result"
  shows "sw_is_on self (sw_async_turn_on C self result d) = Inr (PBool True)"
  using generic_switch_attribute [OF assms(1,2)] assms(3)
  by (simp add: sw_is_on_def sw_async_turn_on_def switch_on_def Let_def status_emit
        getattr_update_attribute_value)

text \<open>The adapter created for the switch capability, on a device with an empty trace.\<close>

theorem sw_is_on_after_turn_on_witness:
  "capability_switches sample_consts ''switch'' =
     Inr [Generic \<lparr>sw_attribute = ''switch'', sw_on_command = ''switch_on'',
                   sw_off_command = ''switch_off'', sw_on_value = PStr ''on'',
                   sw_off_value = PStr ''off'', sw_name = ''Switch'', sw_icon = None,
                   sw_extra_state_attributes = None\<rparr>]
   \<and> py_truthy (PBool True)
   \<and> sw_is_on \<lparr>sw_attribute = ''switch'', sw_on_command = ''switch_on'',
                sw_off_command = ''switch_off'', sw_on_value = PStr ''on'',
                sw_off_value = PStr ''off'', sw_name = ''Switch'', sw_icon = None,
                sw_extra_state_attributes = None\<rparr>
        (sw_async_turn_on sample_consts
           \<lparr>sw_attribute = ''switch'', sw_on_command = ''switch_on'',
            sw_off_command = ''switch_off'', sw_on_value = PStr ''on'',
            sw_off_value = PStr ''off'', sw_name = ''Switch'', sw_icon = None,
            sw_extra_state_attributes = None\<rparr>
           (PBool True) (volume_device (PInt 5)))
       = Inr (PBool True)"
proof -
  let ?sw = "\<lparr>sw_attribute = ''switch'', sw_on_command = ''switch_on'',
              sw_off_command = ''switch_off'', sw_on_value = PStr ''on'',
              sw_off_value = PStr ''off'', sw_name = ''Switch'', sw_icon = None,
              sw_extra_state_attributes = None\<rparr>"
  have h1: "capability_switches sample_consts ''switch'' = Inr [Generic ?sw]"
    by (simp add: capability_switches_def CAPABILITY_TO_SWITCH_def py_dict_def
          sample_consts_def)
  have h2: "Generic ?sw \<in> set [Generic ?sw]" by simp
  have h3: "py_truthy (PBool True)" by simp
  from h1 h3 sw_is_on_after_turn_on [OF h1 h2 h3, of "volume_device (PInt 5)"]
  show ?thesis by simp
qed

section \<open>The custom-capability switch\<close>

text \<open>
  C1.  For every custom switch adapter and device: after \<open>async_turn_off\<close> with a truthy
  command result, the snapshot's mapped attribute holds the configured off-value, and after
  \<open>async_turn_on\<close> the on-value; with a falsy result both leave the snapshot as it was.
\<close>

theorem cs_async_turn_off_on_snapshot:
  "(py_truthy result \<longrightarrow>
      map_option Status_value (status (cs_async_turn_off self result d) (cs_attribute self))
        = Some (cs_off_value self)
      \<and> status_getattr (status (cs_async_turn_off self result d)) (cs_attribute self)
        = Inr (cs_off_value self)
      \<and> map_option Status_value (status (cs_async_turn_on self result d) (cs_attribute self))
        = Some (cs_on_value self)
      \<and> status_getattr (status (cs_async_turn_on self result d)) (cs_attribute self)
        = Inr (cs_on_value self))
   \<and> (\<not> py_truthy result \<longrightarrow>
      status (cs_async_turn_off self result d) = status d
      \<and> status (cs_async_turn_on self result d) = status d)"
  by (simp add: cs_async_turn_off_def cs_async_turn_on_def Let_def status_emit
        value_update_attribute_value getattr_update_attribute_value)

text \<open>The audio switch at volume 100, turned off with and without success.\<close>

theorem cs_async_turn_off_on_snapshot_witness:
  "py_truthy (PBool True)
   \<and> status_getattr (status (cs_async_turn_off samsung_audio_switch (PBool True)
        (volume_device (PInt 100)))) ''volume'' = Inr (PInt 0)
   \<and> \<not> py_truthy (PBool False)
   \<and> status (cs_async_turn_off samsung_audio_switch (PBool False) (volume_device (PInt 100)))
       = status (volume_device (PInt 100))"
  using cs_async_turn_off_on_snapshot [of "PBool True" samsung_audio_switch "volume_device (PInt 100)"]
    cs_async_turn_off_on_snapshot [of "PBool False" samsung_audio_switch "volume_device (PInt 100)"]
  by (simp add: samsung_audio_switch_def)

text \<open>
  C7.  Every \<open>async_turn_on\<close> and \<open>async_turn_off\<close> of the custom switch sends its
  command and then emits the state-changed notification, whatever the command's result;
  with a falsy result the snapshot is untouched and the notification is emitted all the same.
\<close>

theorem cs_notification_always_emitted:
  "trace (cs_async_turn_on self result d) =
     trace d @ [Command ''main'' (cs_capability self) (cs_on_command self) [cs_on_value self],
                WriteHaState]
   \<and> trace (cs_async_turn_off self result d) =
     trace d @ [Command ''main'' (cs_capability self) (cs_off_command self) [cs_off_value self],
                WriteHaState]
   \<and> (\<not> py_truthy result \<longrightarrow>
        status (cs_async_turn_on self result d) = status d
        \<and> status (cs_async_turn_off self result d) = status d)"
  by (simp add: cs_async_turn_off_def cs_async_turn_on_def Let_def status_emit trace_emit)

text \<open>The audio switch, turned on without success.\<close>

theorem cs_notification_always_emitted_witness:
  "\<not> py_truthy (PBool False)
   \<and> status (cs_async_turn_on samsung_audio_switch (PBool False) (volume_device (PInt 0)))
       = status (volume_device (PInt 0))
   \<and> trace (cs_async_turn_on samsung_audio_switch (PBool False) (volume_device (PInt 0)))
       = [Command ''main'' ''audioVolume'' ''setVolume'' [PInt 100], WriteHaState]"
  using cs_notification_always_emitted [of samsung_audio_switch "PBool False" "volume_device (PInt 0)"]
  by (simp add: samsung_audio_switch_def volume_device_def)

text \<open>
  C10.  When the on-value of a custom switch is not \<open>None\<close>, \<open>is_on\<close> is true if and
  only if the snapshot's mapped attribute equals the on-value (Python's \<open>==\<close>); when it is
  \<open>None\<close>, \<open>is_on\<close> returns the attribute's value itself.  For the audio switch, with
  on-value 100 and off-value 0, \<open>is_on\<close> is true exactly when the volume is 100.
\<close>

theorem cs_is_on_reads_snapshot:
  "(status_getattr (status d) (cs_attribute self) = Inr v \<longrightarrow>
      cs_is_on self d =
        Inr (if cs_on_value self \<noteq> PNone then PBool (py_eq v (cs_on_value self)) else v))
   \<and> (status_getattr (status d) ''volume'' = Inr v \<longrightarrow>
      cs_is_on samsung_audio_switch d = Inr (PBool (v = PInt 100)))"
  by (simp add: cs_is_on_def samsung_audio_switch_def py_eq_PInt_100)

text \<open>The audio switch at volume 100 and at volume 40.\<close>

theorem cs_is_on_reads_snapshot_witness:
  "status_getattr (status (volume_device (PInt 100))) ''volume'' = Inr (PInt 100)
   \<and> cs_is_on samsung_audio_switch (volume_device (PInt 100)) = Inr (PBool True)
   \<and> status_getattr (status (volume_device (PInt 40))) ''volume'' = Inr (PInt 40)
   \<and> cs_is_on samsung_audio_switch (volume_device (PInt 40)) = Inr (PBool False)"
proof -
  have h1: "status_getattr (status (volume_device (PInt 100))) ''volume'' = Inr (PInt 100)"
    by (simp add: status_getattr_def volume_device_def)
  have h2: "status_getattr (status (volume_device (PInt 40))) ''volume'' = Inr (PInt 40)"
    by (simp add: status_getattr_def volume_device_def)
  from h1 h2 cs_is_on_reads_snapshot [of "volume_device (PInt 100)" samsung_audio_switch "PInt 100"]
    cs_is_on_reads_snapshot [of "volume_device (PInt 40)" samsung_audio_switch "PInt 40"]
  show ?thesis by simp
qed

section \<open>The paged switch\<close>

text \<open>
  C9.  \<open>async_turn_on\<close> and \<open>async_turn_off\<close> of the paged switch call \<open>execute\<close> on
  the page with the payload \<open>{key: value}\<close> and then notify.  When the call succeeds, the
  snapshot's data attribute is patched with that payload and the cached state is set to true
  (respectively false) directly, whatever the classification would say; when it does not
  succeed, the snapshot and the adapter are unchanged.
\<close>

theorem ocf_async_turn_on_off_effects:
  "trace (snd (ocf_async_turn_on self result d)) =
     trace d @ [Execute (ocf_page self) (Some (PDict [(ocf_key self, ocf_on_value self)])),
                WriteHaState]
   \<and> trace (snd (ocf_async_turn_off self result d)) =
     trace d @ [Execute (ocf_page self) (Some (PDict [(ocf_key self, ocf_off_value self)])),
                WriteHaState]
   \<and> (py_truthy result \<longrightarrow>
        map_option Status_value (status (snd (ocf_async_turn_on self result d)) ''data'')
          = Some (PDict [(''payload'', PDict [(ocf_key self, ocf_on_value self)])])
        \<and> fst (ocf_async_turn_on self result d) = self\<lparr>execute_state := True\<rparr>
        \<and> map_option Status_value (status (snd (ocf_async_turn_off self result d)) ''data'')
          = Some (PDict [(''payload'', PDict [(ocf_key self, ocf_off_value self)])])
        \<and> fst (ocf_async_turn_off self result d) = self\<lparr>execute_state := False\<rparr>)
   \<and> (\<not> py_truthy result \<longrightarrow>
        status (snd (ocf_async_turn_on self result d)) = status d
        \<and> fst (ocf_async_turn_on self result d) = self
        \<and> status (snd (ocf_async_turn_off self result d)) = status d
        \<and> fst (ocf_async_turn_off self result d) = self)"
  by (simp add: ocf_async_turn_on_def ocf_async_turn_off_def Let_def status_emit trace_emit
        value_update_attribute_value emit_def)

text \<open>The light switch, turned on with and off without success.\<close>

theorem ocf_async_turn_on_off_effects_witness:
  "py_truthy (PInt 1)
   \<and> execute_state (fst (ocf_async_turn_on light_adapter (PInt 1) light_off_device))
   \<and> map_option Status_value
        (status (snd (ocf_async_turn_on light_adapter (PInt 1) light_off_device)) ''data'')
       = Some (PDict [(''payload'',
                       PDict [(''x.com.samsung.da.options'', PList [PStr ''Light_On''])])])
   \<and> \<not> py_truthy PNone
   \<and> status (snd (ocf_async_turn_off light_adapter PNone light_on_device))
       = status light_on_device
   \<and> fst (ocf_async_turn_off light_adapter PNone light_on_device) = light_adapter"
  using ocf_async_turn_on_off_effects [of light_adapter "PInt 1" light_off_device]
    ocf_async_turn_on_off_effects [of light_adapter PNone light_on_device]
  by (simp add: light_adapter_def SamsungOcfSwitch_init_def)

text \<open>
  C6.  The first \<open>is_on\<close> read of a fresh paged switch triggers exactly one page visit.  A
  read triggers a page visit exactly when \<open>init_bool\<close> is still false, and \<open>init_bool\<close>
  becomes true in the read that finds the data attribute's href equal to the watched page;
  neither a read nor a write resets it.  So a later read visits the page again as long as no
  read has found the page, and never after one has.
\<close>

theorem ocf_is_on_page_visits:
  "trace (snd (snd (ocf_is_on C
      (SamsungOcfSwitch_init page key on_value off_value name on_icon off_icon) d)))
     = trace d @ [Execute page None]
   \<and> (\<not> init_bool self \<longrightarrow>
        trace (snd (snd (ocf_is_on C self d))) = trace d @ [Execute (ocf_page self) None])
   \<and> (init_bool self \<longrightarrow> trace (snd (snd (ocf_is_on C self d))) = trace d)
   \<and> init_bool (fst (snd (ocf_is_on C self d))) =
       (init_bool self \<or>
        (case data_href C d of Inl e \<Rightarrow> False | Inr h \<Rightarrow> py_eq h (PStr (ocf_page self))))
   \<and> init_bool (fst (ocf_async_turn_on self result d)) = init_bool self
   \<and> init_bool (fst (ocf_async_turn_off self result d)) = init_bool self"
proof -
  have "init_bool (fst (ocf_async_turn_on self result d)) = init_bool self"
    and "init_bool (fst (ocf_async_turn_off self result d)) = init_bool self"
    by (simp_all add: ocf_async_turn_on_def ocf_async_turn_off_def Let_def)
  then show ?thesis
    by (simp add: trace_ocf_is_on init_bool_ocf_is_on SamsungOcfSwitch_init_def)
qed

text \<open>A read that finds the page, and the read after it.\<close>

theorem ocf_is_on_page_visits_witness:
  "\<not> init_bool light_adapter
   \<and> trace (snd (snd seen_read)) = [Execute ''/mode/vs/0'' None]
   \<and> init_bool (fst (snd seen_read))
   \<and> trace (snd (snd (ocf_is_on sample_consts (fst (snd seen_read)) (snd (snd seen_read)))))
       = [Execute ''/mode/vs/0'' None]"
proof -
  have h1: "\<not> init_bool light_adapter"
    by (simp add: light_adapter_def SamsungOcfSwitch_init_def)
  have p: "ocf_page light_adapter = ''/mode/vs/0''"
    by (simp add: light_adapter_def SamsungOcfSwitch_init_def)
  have t0: "trace light_on_device = []"
    by (simp add: light_on_device_def page_device_def)
  have hr: "data_href sample_consts light_on_device = Inr (PStr ''/mode/vs/0'')"
    by (simp add: data_href_def attributes_getitem_def light_on_device_def page_device_def
          sample_consts_def)
  have t1: "trace (snd (snd seen_read)) = [Execute ''/mode/vs/0'' None]"
    using ocf_is_on_page_visits [of sample_consts _ _ _ _ _ _ _ light_on_device light_adapter] h1 p t0
    by (simp add: seen_read_def)
  have h2: "init_bool (fst (snd seen_read))"
    using ocf_is_on_page_visits [of sample_consts _ _ _ _ _ _ _ light_on_device light_adapter] hr p
    by (simp add: seen_read_def)
  have t2: "trace (snd (snd (ocf_is_on sample_consts (fst (snd seen_read)) (snd (snd seen_read)))))
       = [Execute ''/mode/vs/0'' None]"
    using ocf_is_on_page_visits [of sample_consts _ _ _ _ _ _ _ "snd (snd seen_read)" "fst (snd seen_read)"] h2 t1
    by simp
  from h1 t1 h2 t2 show ?thesis by blast
qed

text \<open>While the snapshot holds the payload of another page, the second read visits the
  page a second time.\<close>

theorem ocf_is_on_second_visit_counterexample:
  "fst first_read = Inr False
   \<and> trace (snd (snd first_read)) = [Execute ''/mode/vs/0'' None]
   \<and> fst second_read = Inr False
   \<and> trace (snd (snd second_read)) = [Execute ''/mode/vs/0'' None, Execute ''/mode/vs/0'' None]"
  by (simp add: second_read_def first_read_def ocf_is_on_def Let_def samsung_light_switch_def
        SamsungOcfSwitch_init_def page_device_def sample_consts_def data_href_def
        attributes_getitem_def startup_def emit_def)

text \<open>
  C2.  For a paged switch with on-value list \<open>["Light_On"]\<close> and off-value list
  \<open>["Light_Off"]\<close>, when the data attribute's href equals the watched page: a payload
  output containing \<open>"Light_On"\<close> makes \<open>is_on\<close> return true; an output containing
  \<open>"Light_Off"\<close> makes it return false; an output containing neither leaves the cached
  state as it was and returns it.  The three cases are kept apart as the code keeps them:
  the on-value is looked for first, the off-value only when the on-value is not there.
\<close>

theorem ocf_is_on_light_classification:
  assumes "ocf_on_value self = PList [PStr ''Light_On'']"
    and "ocf_off_value self = PList [PStr ''Light_Off'']"
    and "data_href C d = Inr h" and "py_eq h (PStr (ocf_page self))"
    and "data_output C self d = Inr output"
  shows "(py_in (PStr ''Light_On'') output = Inr True \<longrightarrow>
            fst (ocf_is_on C self d) = Inr True
            \<and> execute_state (fst (snd (ocf_is_on C self d))))
       \<and> (py_in (PStr ''Light_On'') output = Inr False
            \<and> py_in (PStr ''Light_Off'') output = Inr True \<longrightarrow>
            fst (ocf_is_on C self d) = Inr False
            \<and> \<not> execute_state (fst (snd (ocf_is_on C self d))))
       \<and> (py_in (PStr ''Light_On'') output = Inr False
            \<and> py_in (PStr ''Light_Off'') output = Inr False \<longrightarrow>
            fst (ocf_is_on C self d) = Inr (execute_state self)
            \<and> execute_state (fst (snd (ocf_is_on C self d))) = execute_state self)"
  using assms(1,2)
  by (simp add: ocf_is_on_page_seen [OF assms(3,4,5)] classify_def on_off_test_def
        py_index_def)

text \<open>Outputs with \<open>Light_On\<close>, with \<open>Light_Off\<close> and with neither.\<close>

theorem ocf_is_on_light_classification_witness:
  "fst (ocf_is_on sample_consts light_adapter light_on_device) = Inr True
   \<and> fst (ocf_is_on sample_consts (light_adapter\<lparr>execute_state := True\<rparr>) light_off_device)
       = Inr False
   \<and> fst (ocf_is_on sample_consts (light_adapter\<lparr>execute_state := True\<rparr>) no_light_device)
       = Inr True"
proof -
  let ?k = "''x.com.samsung.da.options''"
  have on: "ocf_on_value (light_adapter\<lparr>execute_state := b\<rparr>) = PList [PStr ''Light_On'']"
    and off: "ocf_off_value (light_adapter\<lparr>execute_state := b\<rparr>) = PList [PStr ''Light_Off'']"
    and eq: "py_eq (PStr ''/mode/vs/0'') (PStr (ocf_page (light_adapter\<lparr>execute_state := b\<rparr>)))"
    for b
    by (simp_all add: light_adapter_def SamsungOcfSwitch_init_def)
  have la: "light_adapter\<lparr>execute_state := False\<rparr> = light_adapter"
    by (simp add: light_adapter_def SamsungOcfSwitch_init_def)
  have hr: "data_href sample_consts (page_device ''/mode/vs/0'' ?k out) = Inr (PStr ''/mode/vs/0'')"
    for out
    by (simp add: data_href_def attributes_getitem_def page_device_def sample_consts_def)
  have ou: "data_output sample_consts (light_adapter\<lparr>execute_state := b\<rparr>)
              (page_device ''/mode/vs/0'' ?k out) = Inr out" for b out
    by (simp add: data_output_def attributes_getitem_def page_device_def sample_consts_def
          light_adapter_def SamsungOcfSwitch_init_def)
  have a: "fst (ocf_is_on sample_consts light_adapter light_on_device) = Inr True"
    using ocf_is_on_light_classification
      [OF on [of False] off [of False]
          hr [of "PList [PStr ''Comode_Off'', PStr ''Light_On'']"] eq [of False]
          ou [of False "PList [PStr ''Comode_Off'', PStr ''Light_On'']"]]
    by (simp add: la light_on_device_def)
  have b: "fst (ocf_is_on sample_consts (light_adapter\<lparr>execute_state := True\<rparr>) light_off_device)
       = Inr False"
    using ocf_is_on_light_classification
      [OF on [of True] off [of True]
          hr [of "PList [PStr ''Comode_Off'', PStr ''Light_Off'']"] eq [of True]
          ou [of True "PList [PStr ''Comode_Off'', PStr ''Light_Off'']"]]
    by (simp add: light_off_device_def)
  have c: "fst (ocf_is_on sample_consts (light_adapter\<lparr>execute_state := True\<rparr>) no_light_device)
       = Inr True"
    using ocf_is_on_light_classification
      [OF on [of True] off [of True]
          hr [of "PList [PStr ''Comode_Off'']"] eq [of True]
          ou [of True "PList [PStr ''Comode_Off'']"]]
    by (simp add: no_light_device_def)
  from a b c show ?thesis by blast
qed

text \<open>
  C8.  In the classification of \<open>is_on\<close> the length of the on-value list chooses the form
  of the comparison: with more than one element the whole on-value list, respectively the
  whole off-value list, is tested for membership in the payload output; with exactly one
  element the elements at index 0 are tested.  In both forms the on-value is tested first,
  so an output that contains it is classified as on whatever the off-value test would say.
\<close>

theorem ocf_is_on_membership_form:
  assumes "ocf_on_value self = PList ons" and "ocf_off_value self = PList offs"
    and "data_href C d = Inr h" and "py_eq h (PStr (ocf_page self))"
    and "data_output C self d = Inr output"
  shows "(length ons > 1 \<longrightarrow>
            fst (ocf_is_on C self d) =
              spec_on_off (PList ons) (PList offs) output (execute_state self))
       \<and> (length ons = 1 \<and> offs \<noteq> [] \<longrightarrow>
            fst (ocf_is_on C self d) =
              spec_on_off (ons ! 0) (offs ! 0) output (execute_state self))
       \<and> (length ons > 1 \<and> py_in (PList ons) output = Inr True \<longrightarrow>
            fst (ocf_is_on C self d) = Inr True)
       \<and> (length ons = 1 \<and> py_in (ons ! 0) output = Inr True \<longrightarrow>
            fst (ocf_is_on C self d) = Inr True)"
proof -
  let ?s = "self\<lparr>init_bool := True\<rparr>"
  have on: "ocf_on_value ?s = PList ons" and off: "ocf_off_value ?s = PList offs"
    using assms(1,2) by simp_all
  have r: "fst (ocf_is_on C self d) = map_sum id execute_state (classify ?s output)"
    by (rule ocf_is_on_page_seen(1) [OF assms(3,4,5)])
  have a: "length ons > 1 \<longrightarrow>
      fst (ocf_is_on C self d) = spec_on_off (PList ons) (PList offs) output (execute_state self)"
    using classify_many [OF on off, of "output"] r by simp
  have b: "length ons = 1 \<and> offs \<noteq> [] \<longrightarrow>
      fst (ocf_is_on C self d) = spec_on_off (ons ! 0) (offs ! 0) output (execute_state self)"
  proof
    assume h: "length ons = 1 \<and> offs \<noteq> []"
    then obtain x where x: "ons = [x]" by (cases ons) auto
    from h obtain y ys where y: "offs = y # ys" by (cases offs) auto
    show "fst (ocf_is_on C self d) = spec_on_off (ons ! 0) (offs ! 0) output (execute_state self)"
      using classify_single [of ?s x y ys "output"] on off x y r by simp
  qed
  have c: "length ons > 1 \<and> py_in (PList ons) output = Inr True \<longrightarrow>
      fst (ocf_is_on C self d) = Inr True"
    using classify_many_on_first [OF on, of "output"] r by simp
  have e: "length ons = 1 \<and> py_in (ons ! 0) output = Inr True \<longrightarrow>
      fst (ocf_is_on C self d) = Inr True"
  proof
    assume h: "length ons = 1 \<and> py_in (ons ! 0) output = Inr True"
    then obtain x where x: "ons = [x]" by (cases ons) auto
    show "fst (ocf_is_on C self d) = Inr True"
      using classify_single_on_first [of ?s x "output"] on x h r by simp
  qed
  from a b c e show ?thesis by blast
qed

text \<open>A list output for the one-element form, a list of lists for the other.\<close>

theorem ocf_is_on_membership_form_witness:
  "length [PStr ''Light_On''] = 1
   \<and> py_in ([PStr ''Light_On''] ! 0) (PList [PStr ''Comode_Off'', PStr ''Light_On'']) = Inr True
   \<and> fst (ocf_is_on sample_consts light_adapter light_on_device) = Inr True
   \<and> length [PStr ''Light_On'', PStr ''Beep_On''] > 1
   \<and> py_in (PList [PStr ''Light_On'', PStr ''Beep_On''])
        (PList [PList [PStr ''Light_On'', PStr ''Beep_On'']]) = Inr True
   \<and> fst (ocf_is_on sample_consts two_value_adapter nested_device) = Inr True"
proof -
  let ?k = "''x.com.samsung.da.options''"
  have on1: "ocf_on_value light_adapter = PList [PStr ''Light_On'']"
    and off1: "ocf_off_value light_adapter = PList [PStr ''Light_Off'']"
    and eq1: "py_eq (PStr ''/mode/vs/0'') (PStr (ocf_page light_adapter))"
    by (simp_all add: light_adapter_def SamsungOcfSwitch_init_def)
  have on2: "ocf_on_value two_value_adapter = PList [PStr ''Light_On'', PStr ''Beep_On'']"
    and off2: "ocf_off_value two_value_adapter = PList [PStr ''Light_Off'', PStr ''Beep_Off'']"
    and eq2: "py_eq (PStr ''/mode/vs/0'') (PStr (ocf_page two_value_adapter))"
    by (simp_all add: two_value_adapter_def SamsungOcfSwitch_init_def)
  have hr: "data_href sample_consts (page_device ''/mode/vs/0'' ?k out) = Inr (PStr ''/mode/vs/0'')"
    for out
    by (simp add: data_href_def attributes_getitem_def page_device_def sample_consts_def)
  have ou1: "data_output sample_consts light_adapter (page_device ''/mode/vs/0'' ?k out) = Inr out"
    and ou2: "data_output sample_consts two_value_adapter (page_device ''/mode/vs/0'' ?k out)
                = Inr out" for out
    by (simp_all add: data_output_def attributes_getitem_def page_device_def sample_consts_def
          light_adapter_def two_value_adapter_def SamsungOcfSwitch_init_def)
  have m1: "py_in ([PStr ''Light_On''] ! 0) (PList [PStr ''Comode_Off'', PStr ''Light_On''])
              = Inr True"
    by simp
  have m2: "py_in (PList [PStr ''Light_On'', PStr ''Beep_On''])
              (PList [PList [PStr ''Light_On'', PStr ''Beep_On'']]) = Inr True"
    by simp
  have a: "fst (ocf_is_on sample_consts light_adapter light_on_device) = Inr True"
    using ocf_is_on_membership_form
      [OF on1 off1 hr [of "PList [PStr ''Comode_Off'', PStr ''Light_On'']"] eq1
          ou1 [of "PList [PStr ''Comode_Off'', PStr ''Light_On'']"]] m1
    by (simp add: light_on_device_def spec_on_off_def)
  have b: "fst (ocf_is_on sample_consts two_value_adapter nested_device) = Inr True"
    using ocf_is_on_membership_form
      [OF on2 off2 hr [of "PList [PList [PStr ''Light_On'', PStr ''Beep_On'']]"] eq2
          ou2 [of "PList [PList [PStr ''Light_On'', PStr ''Beep_On'']]"]] m2
    by (simp add: nested_device_def spec_on_off_def)
  from m1 m2 a b show ?thesis by simp
qed

end
